theory Spec2Isabelle
  imports Main "HOL-Library.Sublist"
begin

section \<open>Results, panics and the outside world\<close>

text \<open>
  Go strings are byte sequences: \<^typ>\<open>string\<close> (a list of 8-bit characters).
  A Go \<open>error\<close> value is \<open>None\<close> for \<open>nil\<close> and \<open>Some msg\<close> for
  \<open>errors.New msg\<close>. A run-time panic (an index or a slice bound out of range)
  is the left summand of the result.
\<close>

datatype panic = IndexOutOfRange | SliceBoundsOutOfRange

type_synonym go_error = "string option"

text \<open>Errors that \<open>os.Stat\<close> can report, as far as \<open>os.IsExist\<close> tells them apart.\<close>

datatype os_error = ErrExist | ErrNotExist | ErrPermission | ErrOther

text \<open>
  Every call that consults the environment or the filesystem is recorded, in the order
  the source makes it.
\<close>

datatype io =
    Getenv string
  | ReadFile string
  | Open string
  | Lstat string
  | Readlink string
  | Stat string
  | Realpath string

text \<open>
  The outside world as the Unix implementation reads it. \<open>timezones\<close> is the key set
  of the package-level table \<open>timezones\<close>, whose declaration is not among the source
  files; it is a parameter here. \<open>realpath\<close> is the answer of the imported
  \<open>realpath.Realpath\<close>. \<open>lstat\<close> answers \<open>Some True\<close> for a symbolic link,
  \<open>Some False\<close> for any other entry and \<open>None\<close> on error.
\<close>

record world =
  TZ :: string
  timezones :: "string set"
  readFile :: "string \<Rightarrow> string option"
  lstat :: "string \<Rightarrow> bool option"
  readlink :: "string \<Rightarrow> string option"
  stat :: "string \<Rightarrow> os_error option"
  realpath :: "string \<Rightarrow> string option"

section \<open>The Go library functions the source calls\<close>

text \<open>Indexing \<open>xs[i]\<close> and slicing \<open>xs[n:]\<close>, with Go's bounds checks.\<close>

definition index :: "'a list \<Rightarrow> int \<Rightarrow> panic + 'a" where
  "index xs i = (if 0 \<le> i \<and> i < int (length xs) then Inr (xs ! nat i) else Inl IndexOutOfRange)"

definition slice_from :: "'a list \<Rightarrow> int \<Rightarrow> panic + 'a list" where
  "slice_from xs n =
     (if 0 \<le> n \<and> n \<le> int (length xs) then Inr (drop (nat n) xs) else Inl SliceBoundsOutOfRange)"

text \<open>
  \<open>strings.Split s sep\<close> for a non-empty separator (every call site passes a one-byte
  separator): the pieces between the non-overlapping occurrences of \<open>sep\<close>, found
  from the left; the empty string gives one empty piece.
\<close>

fun split_from :: "string \<Rightarrow> string \<Rightarrow> string \<Rightarrow> string list" where
  "split_from sep acc [] = [rev acc]"
| "split_from sep acc (c # cs) =
     (if sep \<noteq> [] \<and> prefix sep (c # cs)
      then rev acc # split_from sep [] (drop (length sep - 1) cs)
      else split_from sep (c # acc) cs)"

definition strings_Split :: "string \<Rightarrow> string \<Rightarrow> string list" where
  "strings_Split s sep = split_from sep [] s"

text \<open>\<open>strings.Join elems sep\<close>.\<close>

fun strings_Join :: "string list \<Rightarrow> string \<Rightarrow> string" where
  "strings_Join [] sep = []"
| "strings_Join [e] sep = e"
| "strings_Join (e # es) sep = e @ sep @ strings_Join es sep"

text \<open>
  \<open>filepath.Clean\<close> on Unix, element by element: empty and \<open>.\<close> elements are
  dropped, \<open>..\<close> removes the element before it, or is kept in front of a path that is
  not rooted, or is dropped at the root; the empty result is \<open>.\<close>. The second
  argument of \<open>clean_elems\<close> is the output so far, last element first.
\<close>

fun clean_elems :: "bool \<Rightarrow> string list \<Rightarrow> string list \<Rightarrow> string list" where
  "clean_elems rooted out [] = rev out"
| "clean_elems rooted out (e # es) =
     (if e = [] \<or> e = ''.'' then clean_elems rooted out es
      else if e = ''..'' then
        (case out of
           [] \<Rightarrow> if rooted then clean_elems rooted out es
                 else clean_elems rooted [''..''] es
         | x # out' \<Rightarrow>
             if x = ''..'' then clean_elems rooted (''..'' # out) es
             else clean_elems rooted out' es)
      else clean_elems rooted (e # out) es)"

definition filepath_Clean :: "string \<Rightarrow> string" where
  "filepath_Clean path =
     (if path = [] then ''.''
      else
        let rooted = (hd path = CHR ''/'');
            out = clean_elems rooted [] (strings_Split path ''/'');
            s = (if rooted then ''/'' else []) @ strings_Join out ''/''
        in if s = [] then ''.'' else s)"

text \<open>
  \<open>filepath.Join\<close>: the elements from the first non-empty one on, joined with the
  separator and cleaned; the empty string when every element is empty.
\<close>

fun filepath_Join :: "string list \<Rightarrow> string" where
  "filepath_Join [] = []"
| "filepath_Join (e # es) =
     (if e \<noteq> [] then filepath_Clean (strings_Join (e # es) ''/'') else filepath_Join es)"

text \<open>
  \<open>strings.Index s substr\<close>: the position of the first occurrence, or \<open>-1\<close>;
  \<open>strings.Contains\<close> is \<open>Index \<ge> 0\<close>.
\<close>

fun index_from :: "string \<Rightarrow> string \<Rightarrow> nat \<Rightarrow> int" where
  "index_from [] substr i = (if substr = [] then int i else - 1)"
| "index_from (c # cs) substr i =
     (if prefix substr (c # cs) then int i else index_from cs substr (Suc i))"

definition strings_Index :: "string \<Rightarrow> string \<Rightarrow> int" where
  "strings_Index s substr = index_from s substr 0"

definition strings_Contains :: "string \<Rightarrow> string \<Rightarrow> bool" where
  "strings_Contains s substr = (0 \<le> strings_Index s substr)"

text \<open>
  \<open>strings.SplitN s sep n\<close> for a non-empty separator: no piece for \<open>n = 0\<close>, all
  pieces for \<open>n < 0\<close>, else at most \<open>n\<close> pieces, the last one the unsplit rest.
\<close>

fun splitN_from :: "string \<Rightarrow> nat \<Rightarrow> string \<Rightarrow> string \<Rightarrow> string list" where
  "splitN_from sep k acc [] = [rev acc]"
| "splitN_from sep k acc (c # cs) =
     (if k = 0 then [rev acc @ c # cs]
      else if sep \<noteq> [] \<and> prefix sep (c # cs)
      then rev acc # splitN_from sep (k - 1) [] (drop (length sep - 1) cs)
      else splitN_from sep k (c # acc) cs)"

definition strings_SplitN :: "string \<Rightarrow> string \<Rightarrow> int \<Rightarrow> string list" where
  "strings_SplitN s sep n =
     (if n = 0 then [] else if n < 0 then strings_Split s sep
      else splitN_from sep (nat (n - 1)) [] s)"

text \<open>
  \<open>strings.ReplaceAll s old new\<close> for a non-empty \<open>old\<close>: the non-overlapping
  occurrences of \<open>old\<close>, found from the left, are replaced.
\<close>

fun strings_ReplaceAll :: "string \<Rightarrow> string \<Rightarrow> string \<Rightarrow> string" where
  "strings_ReplaceAll [] old new = []"
| "strings_ReplaceAll (c # cs) old new =
     (if old \<noteq> [] \<and> prefix old (c # cs)
      then new @ strings_ReplaceAll (drop (length old - 1) cs) old new
      else c # strings_ReplaceAll cs old new)"

text \<open>
  \<open>strings.Trim s cutset\<close> for a cutset of ASCII bytes: the bytes of the cutset are
  removed from both ends.
\<close>

definition strings_Trim :: "string \<Rightarrow> string \<Rightarrow> string" where
  "strings_Trim s cutset =
     rev (dropWhile (\<lambda>c. c \<in> set cutset) (rev (dropWhile (\<lambda>c. c \<in> set cutset) s)))"

text \<open>
  \<open>strings.TrimSpace\<close> removes the white-space runes of Unicode from both ends: the
  six ASCII ones (tab, line feed, vertical tab, form feed, carriage return, space) and
  the code points U+0085, U+00A0, U+1680, U+2000 to U+200A, U+2028, U+2029, U+202F,
  U+205F and U+3000, each recognised by its UTF-8 encoding. Any other byte sequence,
  valid UTF-8 or not, stops the trimming.
\<close>

definition ascii_space :: "char \<Rightarrow> bool" where
  "ascii_space c = (c \<in> {CHR 0x09, CHR 0x0A, CHR 0x0B, CHR 0x0C, CHR 0x0D, CHR 0x20})"

definition unicode_space_encodings :: "string list" where
  "unicode_space_encodings =
     [[CHR 0xC2, CHR 0x85], [CHR 0xC2, CHR 0xA0], [CHR 0xE1, CHR 0x9A, CHR 0x80],
      [CHR 0xE2, CHR 0x80, CHR 0x80], [CHR 0xE2, CHR 0x80, CHR 0x81],
      [CHR 0xE2, CHR 0x80, CHR 0x82], [CHR 0xE2, CHR 0x80, CHR 0x83],
      [CHR 0xE2, CHR 0x80, CHR 0x84], [CHR 0xE2, CHR 0x80, CHR 0x85],
      [CHR 0xE2, CHR 0x80, CHR 0x86], [CHR 0xE2, CHR 0x80, CHR 0x87],
      [CHR 0xE2, CHR 0x80, CHR 0x88], [CHR 0xE2, CHR 0x80, CHR 0x89],
      [CHR 0xE2, CHR 0x80, CHR 0x8A], [CHR 0xE2, CHR 0x80, CHR 0xA8],
      [CHR 0xE2, CHR 0x80, CHR 0xA9], [CHR 0xE2, CHR 0x80, CHR 0xAF],
      [CHR 0xE2, CHR 0x81, CHR 0x9F], [CHR 0xE3, CHR 0x80, CHR 0x80]]"

text \<open>
  The number of bytes of the white-space rune that \<open>s\<close> starts with (given the
  encodings to look for), \<open>0\<close> when it starts with none.
\<close>

definition space_rune_len :: "string list \<Rightarrow> string \<Rightarrow> nat" where
  "space_rune_len encs s =
     (case s of
        [] \<Rightarrow> 0
      | c # cs \<Rightarrow>
          if ascii_space c then 1
          else (case find (\<lambda>e. prefix e s) encs of None \<Rightarrow> 0 | Some e \<Rightarrow> length e))"

function trim_space_runes :: "string list \<Rightarrow> string \<Rightarrow> string" where
  "trim_space_runes encs s =
     (if space_rune_len encs s = 0 \<or> length s < space_rune_len encs s then s
      else trim_space_runes encs (drop (space_rune_len encs s) s))"
  by pat_completeness auto
termination
  by (relation "measure (\<lambda>(encs, s). length s)") auto

definition strings_TrimSpace :: "string \<Rightarrow> string" where
  "strings_TrimSpace s =
     rev (trim_space_runes (map rev unicode_space_encodings)
            (rev (trim_space_runes unicode_space_encodings s)))"

text \<open>
  \<open>bufio.Scanner\<close> with the default split function \<open>ScanLines\<close>: a token is the
  text up to the next line feed (or up to the end of the data), without one trailing
  carriage return. The buffer holds at most \<open>MaxScanTokenSize\<close> bytes, so scanning
  stops, with no further token, at a line of that many bytes or more. The source does
  not look at the scanner's error.
\<close>

definition MaxScanTokenSize :: nat where
  "MaxScanTokenSize = 64 * 1024"

definition dropCR :: "string \<Rightarrow> string" where
  "dropCR data = (if data \<noteq> [] \<and> last data = CHR 0x0D then butlast data else data)"

function Scanner_lines :: "string \<Rightarrow> string list" where
  "Scanner_lines data =
     (if data = [] then []
      else
        let line = takeWhile (\<lambda>c. c \<noteq> CHR 0x0A) data;
            rest = dropWhile (\<lambda>c. c \<noteq> CHR 0x0A) data
        in if MaxScanTokenSize \<le> length line then []
           else dropCR line # Scanner_lines (tl rest))"
  by pat_completeness auto
termination
proof (relation "measure length")
  show "wf (measure length)" by simp
next
  fix data :: string and line rest
  assume "data \<noteq> []" and "rest = dropWhile (\<lambda>c. c \<noteq> CHR 0x0A) data"
  then have "length (tl rest) < length data"
    using length_dropWhile_le [of "\<lambda>c. c \<noteq> CHR 0x0A" data] by (cases data) auto
  then show "(tl rest, data) \<in> measure length" by simp
qed

text \<open>
  The regular expression \<open>timezoneRegex\<close>,
  \<^verbatim>\<open>^\s*(TIMEZONE|ZONE)\s*=\s*\"(?P<tz>.*)\"$\<close>, under the leftmost-first matching
  of Go's \<open>regexp\<close>: \<open>\s\<close> is one of tab, line feed, form feed, carriage return
  and space; \<open>.\<close> is any character but the line feed; \<open>^\<close> and \<open>$\<close> are the ends
  of the text. \<open>FindStringSubmatch\<close> gives \<open>nil\<close> (the empty list) when the line
  does not match, else the whole match, the key and the group \<open>tz\<close>, which reaches up
  to the last character of the line, a double quote.
\<close>

definition regex_space :: "char \<Rightarrow> bool" where
  "regex_space c = (c \<in> {CHR 0x09, CHR 0x0A, CHR 0x0C, CHR 0x0D, CHR 0x20})"

definition timezoneRegex_key :: "string \<Rightarrow> (string \<times> string) option" where
  "timezoneRegex_key s =
     (if prefix ''TIMEZONE'' s then Some (''TIMEZONE'', drop 8 s)
      else if prefix ''ZONE'' s then Some (''ZONE'', drop 4 s)
      else None)"

definition timezoneRegex_FindStringSubmatch :: "string \<Rightarrow> string list" where
  "timezoneRegex_FindStringSubmatch line =
     (case timezoneRegex_key (dropWhile regex_space line) of
        None \<Rightarrow> []
      | Some (key, s2) \<Rightarrow>
          (case dropWhile regex_space s2 of
             [] \<Rightarrow> []
           | c # s4 \<Rightarrow>
               if c \<noteq> CHR ''='' then []
               else
                 (case dropWhile regex_space s4 of
                    [] \<Rightarrow> []
                  | q # s6 \<Rightarrow>
                      if q = CHR 0x22 \<and> s6 \<noteq> [] \<and> last s6 = CHR 0x22
                         \<and> CHR 0x0A \<notin> set (butlast s6)
                      then [line, key, butlast s6]
                      else [])))"

definition timezoneRegex_SubexpNames :: "string list" where
  "timezoneRegex_SubexpNames = [[], [], ''tz'']"

section \<open>The Resolver\<close>

text \<open>\<open>appendIfMissing\<close>: the slice itself when it holds \<open>s\<close>, else \<open>s\<close> appended.\<close>

fun appendIfMissing_found :: "string list \<Rightarrow> string \<Rightarrow> bool" where
  "appendIfMissing_found [] s = False"
| "appendIfMissing_found (item # slice) s = (if item = s then True else appendIfMissing_found slice s)"

definition appendIfMissing :: "string list \<Rightarrow> string \<Rightarrow> string list" where
  "appendIfMissing slice s = (if appendIfMissing_found slice s then slice else slice @ [s])"

text \<open>
  The loop of \<open>resolveTimezones\<close> over the candidates: each is joined under the
  root and resolved; a candidate that does not resolve is skipped; the resolved path is
  split at the separator and sliced from \<open>depth\<close> on, which panics when the path has
  fewer pieces than that.
\<close>

fun resolve_loop ::
  "world \<Rightarrow> string \<Rightarrow> nat \<Rightarrow> string list \<Rightarrow> string list \<Rightarrow> (panic + string list) \<times> io list"
where
  "resolve_loop w zoneinfo depth [] filtered = (Inr filtered, [])"
| "resolve_loop w zoneinfo depth (tzname # rest) filtered =
     (let p = filepath_Join [zoneinfo, tzname] in
      case realpath w p of
        None \<Rightarrow>
          (let (r, tr) = resolve_loop w zoneinfo depth rest filtered
           in (r, Realpath p # tr))
      | Some path \<Rightarrow>
          (case slice_from (strings_Split path ''/'') (int depth) of
             Inl e \<Rightarrow> (Inl e, [Realpath p])
           | Inr comps \<Rightarrow>
               (let (r, tr) =
                      resolve_loop w zoneinfo depth rest
                        (appendIfMissing filtered (strings_Join comps ''/''))
                in (r, Realpath p # tr))))"

definition conflict_message :: "string list \<Rightarrow> string" where
  "conflict_message filtered =
     ''multiple conflicting time zone configurations found:'' @ [CHR 0x0A]
     @ concat (map (\<lambda>v. v @ [CHR 0x0A]) filtered)
     @ ''Fix the configuration, or set the time zone in a TZ environment variable''"

definition resolveTimezones ::
  "world \<Rightarrow> string list \<Rightarrow> string \<Rightarrow> (panic + string \<times> go_error) \<times> io list"
where
  "resolveTimezones w tzs zoneinfo =
     (case tzs of
        [] \<Rightarrow> (Inr ([], None), [])
      | [tz] \<Rightarrow> (Inr (tz, None), [])
      | _ \<Rightarrow>
          (let depth = length (strings_Split zoneinfo ''/'') in
           case resolve_loop w zoneinfo depth tzs [] of
             (Inl e, tr) \<Rightarrow> (Inl e, tr)
           | (Inr filtered, tr) \<Rightarrow>
               if length filtered = 1 then (Inr (hd filtered, None), tr)
               else if length filtered > 1 then (Inr ([], Some (conflict_message filtered)), tr)
               else (Inr ([], None), tr)))"

section \<open>The probes\<close>

subsection \<open>The environment probe\<close>

text \<open>\<open>filepath.IsAbs\<close> on Unix: the path starts with a slash.\<close>

definition filepath_IsAbs :: "string \<Rightarrow> bool" where
  "filepath_IsAbs path = prefix ''/'' path"

definition fileExists :: "world \<Rightarrow> string \<Rightarrow> bool" where
  "fileExists w fp = (case stat w fp of None \<Rightarrow> True | Some err \<Rightarrow> err = ErrExist)"

text \<open>
  \<open>parseEnv\<close>. \<open>os.Stat\<close> is called only for an absolute path that is no key of the
  table (\<open>&&\<close> evaluates its right operand only then).
\<close>

definition parseEnv :: "world \<Rightarrow> (panic + string) \<times> io list" where
  "parseEnv w =
     (let tzenv = TZ w in
      if tzenv = [] then (Inr [], [Getenv ''TZ''])
      else if tzenv \<in> timezones w then (Inr tzenv, [Getenv ''TZ''])
      else if \<not> filepath_IsAbs tzenv then (Inr [], [Getenv ''TZ''])
      else if \<not> fileExists w tzenv then (Inr [], [Getenv ''TZ'', Stat tzenv])
      else
        (let parts = strings_Split tzenv ''/'' in
         case slice_from parts (int (length parts) - 2) of
           Inl e \<Rightarrow> (Inl e, [Getenv ''TZ'', Stat tzenv])
         | Inr last2 \<Rightarrow>
             (let joined = strings_Join last2 ''/'' in
              if joined \<in> timezones w then (Inr joined, [Getenv ''TZ'', Stat tzenv])
              else
                (case index parts (int (length parts) - 1) of
                   Inl e \<Rightarrow> (Inl e, [Getenv ''TZ'', Stat tzenv])
                 | Inr l \<Rightarrow>
                     if l \<in> timezones w then (Inr l, [Getenv ''TZ'', Stat tzenv])
                     else (Inr [], [Getenv ''TZ'', Stat tzenv])))))"

subsection \<open>The config-file probe\<close>

text \<open>
  The body of the loop over the lines of one file: the line cut at the first space,
  then at the first \<open>#\<close>, then trimmed. \<open>strings.SplitN(line, sep, 2)[0]\<close> is an
  index expression, with its bounds check.
\<close>

definition parseFromConfigFile_line :: "string \<Rightarrow> panic + string" where
  "parseFromConfigFile_line line =
     (case (if strings_Contains line '' '' then index (strings_SplitN line '' '' 2) 0
            else Inr line) of
        Inl e \<Rightarrow> Inl e
      | Inr line1 \<Rightarrow>
          (case (if strings_Contains line1 ''#'' then index (strings_SplitN line1 ''#'' 2) 0
                 else Inr line1) of
             Inl e \<Rightarrow> Inl e
           | Inr line2 \<Rightarrow> Inr (strings_TrimSpace line2)))"

fun parseFromConfigFile_lines :: "string list \<Rightarrow> string list \<Rightarrow> panic + string list" where
  "parseFromConfigFile_lines [] tzs = Inr tzs"
| "parseFromConfigFile_lines (line # lines) tzs =
     (case parseFromConfigFile_line line of
        Inl e \<Rightarrow> Inl e
      | Inr line' \<Rightarrow>
          if line' \<noteq> []
          then parseFromConfigFile_lines lines (tzs @ [strings_ReplaceAll line' '' '' ''_''])
          else parseFromConfigFile_lines lines tzs)"

text \<open>
  The loop over the paths. \<open>readFile w p\<close> is the content of \<open>p\<close> when the file can
  be opened and read, \<open>None\<close> otherwise; an unreadable file is skipped, and so is one
  that is empty once the slashes and white space around its content are trimmed.
\<close>

fun parseFromConfigFile_paths ::
  "world \<Rightarrow> string list \<Rightarrow> string list \<Rightarrow> (panic + string list) \<times> io list"
where
  "parseFromConfigFile_paths w [] tzs = (Inr tzs, [])"
| "parseFromConfigFile_paths w (configfile # paths) tzs =
     (case readFile w configfile of
        None \<Rightarrow>
          (let (r, tr) = parseFromConfigFile_paths w paths tzs
           in (r, ReadFile configfile # tr))
      | Some data \<Rightarrow>
          (let etctz = strings_Trim data [CHR ''/'', CHR '' '', CHR 0x09, CHR 0x0D, CHR 0x0A] in
           if etctz = [] then
             (let (r, tr) = parseFromConfigFile_paths w paths tzs
              in (r, ReadFile configfile # tr))
           else
             (case parseFromConfigFile_lines
                     (strings_Split (strings_ReplaceAll etctz [CHR 0x0D, CHR 0x0A] [CHR 0x0A])
                        [CHR 0x0A]) tzs of
                Inl e \<Rightarrow> (Inl e, [ReadFile configfile])
              | Inr tzs' \<Rightarrow>
                  (let (r, tr) = parseFromConfigFile_paths w paths tzs'
                   in (r, ReadFile configfile # tr)))))"

definition parseFromConfigFile :: "world \<Rightarrow> string list \<Rightarrow> (panic + string list) \<times> io list" where
  "parseFromConfigFile w paths = parseFromConfigFile_paths w paths []"

subsection \<open>The key=value probe\<close>

text \<open>
  \<open>paramsMap\<close> is a Go map from strings to strings: an association list with one
  entry for each key; a key that is absent reads as the empty string.
\<close>

fun map_assign :: "(string \<times> string) list \<Rightarrow> string \<Rightarrow> string \<Rightarrow> (string \<times> string) list" where
  "map_assign [] k v = [(k, v)]"
| "map_assign ((k', v') # m) k v = (if k' = k then (k, v) # m else (k', v') # map_assign m k v)"

definition map_get :: "(string \<times> string) list \<Rightarrow> string \<Rightarrow> string" where
  "map_get m k = (case map_of m k of None \<Rightarrow> [] | Some v \<Rightarrow> v)"

text \<open>
  The loop over \<open>SubexpNames()\<close> with its index \<open>i\<close>: \<open>match[i]\<close> is read when
  \<open>i > 0 && i <= len(match)\<close>, and reading it panics when \<open>i\<close> is \<open>len(match)\<close>.
\<close>

fun paramsMap_loop ::
  "int \<Rightarrow> string list \<Rightarrow> string list \<Rightarrow> (string \<times> string) list
   \<Rightarrow> panic + (string \<times> string) list"
where
  "paramsMap_loop i [] match paramsMap = Inr paramsMap"
| "paramsMap_loop i (name # names) match paramsMap =
     (if 0 < i \<and> i \<le> int (length match) then
        (case index match i of
           Inl e \<Rightarrow> Inl e
         | Inr v \<Rightarrow> paramsMap_loop (i + 1) names match (map_assign paramsMap name v))
      else paramsMap_loop (i + 1) names match paramsMap)"

fun parseFromClock_lines :: "string list \<Rightarrow> string list \<Rightarrow> panic + string list" where
  "parseFromClock_lines [] tzs = Inr tzs"
| "parseFromClock_lines (line # lines) tzs =
     (case paramsMap_loop 0 timezoneRegex_SubexpNames
             (timezoneRegex_FindStringSubmatch line) [] of
        Inl e \<Rightarrow> Inl e
      | Inr paramsMap \<Rightarrow>
          if length paramsMap = 0 \<or> map_get paramsMap ''tz'' = []
          then parseFromClock_lines lines tzs
          else parseFromClock_lines lines
                 (tzs @ [strings_ReplaceAll (map_get paramsMap ''tz'') '' '' ''_'']))"

text \<open>
  The loop over the paths: a file that does not open is skipped; the lines of one that
  opens are those the scanner yields from its content.
\<close>

fun parseFromClock_paths ::
  "world \<Rightarrow> string list \<Rightarrow> string list \<Rightarrow> (panic + string list) \<times> io list"
where
  "parseFromClock_paths w [] tzs = (Inr tzs, [])"
| "parseFromClock_paths w (filename # paths) tzs =
     (case readFile w filename of
        None \<Rightarrow>
          (let (r, tr) = parseFromClock_paths w paths tzs
           in (r, Open filename # tr))
      | Some data \<Rightarrow>
          (case parseFromClock_lines (Scanner_lines data) tzs of
             Inl e \<Rightarrow> (Inl e, [Open filename])
           | Inr tzs' \<Rightarrow>
               (let (r, tr) = parseFromClock_paths w paths tzs'
                in (r, Open filename # tr))))"

definition parseFromClock :: "world \<Rightarrow> string list \<Rightarrow> (panic + string list) \<times> io list" where
  "parseFromClock w paths = parseFromClock_paths w paths []"

subsection \<open>The symlink probe\<close>

definition parseSymlink :: "world \<Rightarrow> string \<Rightarrow> (panic + string) \<times> io list" where
  "parseSymlink w path =
     (case lstat w path of
        None \<Rightarrow> (Inr [], [Lstat path])
      | Some is_symlink \<Rightarrow>
          if is_symlink then
            (case readlink w path of
               None \<Rightarrow> (Inr [], [Lstat path, Readlink path])
             | Some tz \<Rightarrow>
                 (let idx = strings_Index tz ''zoneinfo/'' in
                  if idx = - 1 then (Inr [], [Lstat path, Readlink path])
                  else
                    (case slice_from tz (idx + 9) of
                       Inl e \<Rightarrow> (Inl e, [Lstat path, Readlink path])
                     | Inr name \<Rightarrow>
                         (Inr (strings_ReplaceAll name '' '' ''_''),
                          [Lstat path, Readlink path]))))
          else (Inr [], [Lstat path]))"

section \<open>The entry point\<close>

definition Name :: "world \<Rightarrow> (panic + string \<times> go_error) \<times> io list" where
  "Name w =
     (case parseEnv w of
        (Inl e, t0) \<Rightarrow> (Inl e, t0)
      | (Inr tzenv, t0) \<Rightarrow>
          if tzenv \<noteq> [] then (Inr (tzenv, None), t0)
          else
            (case parseFromConfigFile w [''/etc/timezone'', ''/var/db/zoneinfo''] of
               (Inl e, t1) \<Rightarrow> (Inl e, t0 @ t1)
             | (Inr fromConfig, t1) \<Rightarrow>
                 (case parseFromClock w [''/etc/sysconfig/clock'', ''/etc/conf.d/clock''] of
                    (Inl e, t2) \<Rightarrow> (Inl e, t0 @ t1 @ t2)
                  | (Inr fromClock, t2) \<Rightarrow>
                      (case parseSymlink w ''/etc/localtime'' of
                         (Inl e, t3) \<Rightarrow> (Inl e, t0 @ t1 @ t2 @ t3)
                       | (Inr parsed, t3) \<Rightarrow>
                           (let tzs = fromConfig @ fromClock;
                                tzs' = (if parsed \<noteq> [] then tzs @ [parsed] else tzs);
                                (r, t4) = resolveTimezones w tzs' ''/usr/share/zoneinfo''
                            in (r, t0 @ t1 @ t2 @ t3 @ t4))))))"

subsection \<open>The Windows implementation and the stub for other platforms\<close>

text \<open>
  What the Windows implementation reads: the variable \<open>TZ\<close>, the table
  \<open>timezones\<close> and the table \<open>windowsTimezones\<close> (both declared outside the source
  files at hand, parameters here), \<open>filepath.IsAbs\<close> with the volume-name rules of
  Windows (a parameter), \<open>os.Stat\<close>, whether \<open>registry.OpenKey\<close> succeeds, and the
  answer of \<open>GetStringValue\<close> for \<open>TimeZoneKeyName\<close>.
\<close>

record win_world =
  win_TZ :: string
  win_timezones :: "string set"
  win_IsAbs :: "string \<Rightarrow> bool"
  win_stat :: "string \<Rightarrow> os_error option"
  registry_OpenKey :: bool
  registry_GetStringValue :: "string option"
  windowsTimezones :: "string \<Rightarrow> string option"

definition win_fileExists :: "win_world \<Rightarrow> string \<Rightarrow> bool" where
  "win_fileExists w fp = (case win_stat w fp of None \<Rightarrow> True | Some err \<Rightarrow> err = ErrExist)"

definition win_parseEnv :: "win_world \<Rightarrow> panic + string" where
  "win_parseEnv w =
     (let tzenv = win_TZ w in
      if tzenv = [] then Inr []
      else if tzenv \<in> win_timezones w then Inr tzenv
      else if win_IsAbs w tzenv \<and> win_fileExists w tzenv then
        (let parts = strings_Split tzenv [CHR 0x5C] in
         case slice_from parts (int (length parts) - 2) of
           Inl e \<Rightarrow> Inl e
         | Inr last2 \<Rightarrow>
             (let joined = strings_Join last2 ''/'' in
              if joined \<in> win_timezones w then Inr joined
              else
                (case index parts (int (length parts) - 1) of
                   Inl e \<Rightarrow> Inl e
                 | Inr l \<Rightarrow> if l \<in> win_timezones w then Inr l else Inr [])))
      else Inr [])"

definition win_Name :: "win_world \<Rightarrow> panic + string \<times> go_error" where
  "win_Name w =
     (case win_parseEnv w of
        Inl e \<Rightarrow> Inl e
      | Inr tzenv \<Rightarrow>
          if tzenv \<noteq> [] then Inr (tzenv, None)
          else if \<not> registry_OpenKey w then Inr ([], Some ''failed to open registry key'')
          else
            (case registry_GetStringValue w of
               None \<Rightarrow> Inr ([], Some ''can not find windows timezone configuration'')
             | Some raw \<Rightarrow>
                 (let tzwin = strings_ReplaceAll raw [CHR 0x00] [] in
                  case windowsTimezones w tzwin of
                    Some tz \<Rightarrow> Inr (tz, None)
                  | None \<Rightarrow>
                      (let tzwin' = tzwin @ '' Standard Time'' in
                       case windowsTimezones w tzwin' of
                         Some tz \<Rightarrow> Inr (tz, None)
                       | None \<Rightarrow>
                           Inr ([], Some (''windows timezone '' @ [CHR 0x27] @ tzwin'
                                          @ [CHR 0x27] @ '' not found''))))))"

text \<open>The stub built on every other platform; \<open>goos\<close> is \<open>runtime.GOOS\<close>.\<close>

definition stub_Name :: "string \<Rightarrow> string \<times> go_error" where
  "stub_Name goos =
     ([], Some (''name not implemented for '' @ [CHR 0x27] @ goos @ [CHR 0x27]))"

section \<open>The specification's words, as definitions\<close>

subsection \<open>The Resolver's identifiers\<close>

text \<open>
  The real paths of the candidates that resolve under the root, in the order of the
  candidates; the identifier of a real path, its pieces after the first \<open>depth\<close> ones
  joined with slashes; and a list without its repetitions, in first-seen order.
\<close>

definition resolved_paths :: "world \<Rightarrow> string \<Rightarrow> string list \<Rightarrow> string list" where
  "resolved_paths w zoneinfo tzs =
     List.map_filter (\<lambda>tz. realpath w (filepath_Join [zoneinfo, tz])) tzs"

definition path_identifier :: "nat \<Rightarrow> string \<Rightarrow> string" where
  "path_identifier depth path = strings_Join (drop depth (strings_Split path ''/'')) ''/''"

definition first_seen :: "string list \<Rightarrow> string list" where
  "first_seen xs = rev (remdups (rev xs))"

definition spec_identifiers :: "world \<Rightarrow> string \<Rightarrow> string list \<Rightarrow> string list" where
  "spec_identifiers w zoneinfo tzs =
     first_seen (map (path_identifier (length (strings_Split zoneinfo ''/'')))
                   (resolved_paths w zoneinfo tzs))"

subsection \<open>The config-file probe\<close>

text \<open>
  The content with the slashes and the white space (space, tab, carriage return, line
  feed) around it stripped; its lines, ended by a line feed or by a carriage return and
  a line feed; a blank line, one of white space only; and what a line contributes: the
  text before its first space, cut at the first \<open>#\<close>, trimmed, its spaces turned
  into underscores.
\<close>

definition spec_strip_content :: "string \<Rightarrow> string" where
  "spec_strip_content content =
     (let around = (\<lambda>c. c = CHR ''/'' \<or> c = CHR '' '' \<or> c = CHR 0x09 \<or> c = CHR 0x0D \<or> c = CHR 0x0A)
      in rev (dropWhile around (rev (dropWhile around content))))"

fun spec_text_lines :: "string \<Rightarrow> string \<Rightarrow> string list" where
  "spec_text_lines acc [] = [rev acc]"
| "spec_text_lines acc [c] = (if c = CHR 0x0A then [rev acc, []] else [rev (c # acc)])"
| "spec_text_lines acc (c # d # cs) =
     (if c = CHR 0x0A then rev acc # spec_text_lines [] (d # cs)
      else if c = CHR 0x0D \<and> d = CHR 0x0A then rev acc # spec_text_lines [] cs
      else spec_text_lines (c # acc) (d # cs))"

definition spec_blank :: "string \<Rightarrow> bool" where
  "spec_blank line = list_all ascii_space line"

definition spec_config_line :: "string \<Rightarrow> string" where
  "spec_config_line line =
     map (\<lambda>c. if c = CHR '' '' then CHR ''_'' else c)
       (strings_TrimSpace
          (takeWhile (\<lambda>c. c \<noteq> CHR ''#'') (takeWhile (\<lambda>c. c \<noteq> CHR '' '') line)))"

definition spec_config_candidates :: "string \<Rightarrow> string list" where
  "spec_config_candidates content =
     filter (\<lambda>l. l \<noteq> [])
       (map spec_config_line
          (filter (\<lambda>l. \<not> spec_blank l) (spec_text_lines [] (spec_strip_content content))))"

subsection \<open>The key=value probe\<close>

text \<open>
  The lines of a text: the pieces that end at a line feed, and the piece after the last
  line feed when it is not empty, each without one trailing carriage return.
\<close>

fun lf_pieces :: "string \<Rightarrow> string \<Rightarrow> string list" where
  "lf_pieces acc [] = (if acc = [] then [] else [rev acc])"
| "lf_pieces acc (c # cs) =
     (if c = CHR 0x0A then rev acc # lf_pieces [] cs else lf_pieces (c # acc) cs)"

definition spec_clock_lines :: "string \<Rightarrow> string list" where
  "spec_clock_lines data = map dropCR (lf_pieces [] data)"

text \<open>
  A line matches the pattern with key \<open>key\<close> and value \<open>v\<close>: optional white space,
  the key \<open>TIMEZONE\<close> or \<open>ZONE\<close>, optional white space, \<open>=\<close>, optional white
  space, and the value between double quotes.
\<close>

definition spec_pattern :: "string \<Rightarrow> string \<Rightarrow> string \<Rightarrow> bool" where
  "spec_pattern line key v =
     (\<exists>ws1 ws2 ws3.
        line = ws1 @ key @ ws2 @ ''='' @ ws3 @ [CHR 0x22] @ v @ [CHR 0x22]
        \<and> list_all regex_space ws1 \<and> list_all regex_space ws2 \<and> list_all regex_space ws3
        \<and> (key = ''TIMEZONE'' \<or> key = ''ZONE'')
        \<and> CHR 0x0A \<notin> set v)"

text \<open>What a line contributes: its value with underscores for spaces, when it has one.\<close>

definition spec_clock_line :: "string \<Rightarrow> string list" where
  "spec_clock_line line =
     (case timezoneRegex_FindStringSubmatch line of
        [whole, key, v] \<Rightarrow>
          if v \<noteq> [] then [map (\<lambda>c. if c = CHR '' '' then CHR ''_'' else c) v] else []
      | _ \<Rightarrow> [])"

subsection \<open>What a call observes\<close>

text \<open>The answer of the world to one recorded call.\<close>

datatype observation =
    Text "string option"
  | Mode "bool option"
  | Status "os_error option"

fun observe :: "world \<Rightarrow> io \<Rightarrow> observation" where
  "observe w (Getenv name) = Text (if name = ''TZ'' then Some (TZ w) else None)"
| "observe w (ReadFile p) = Text (readFile w p)"
| "observe w (Open p) = Text (readFile w p)"
| "observe w (Lstat p) = Mode (lstat w p)"
| "observe w (Readlink p) = Text (readlink w p)"
| "observe w (Stat p) = Status (stat w p)"
| "observe w (Realpath p) = Text (realpath w p)"

section \<open>Example worlds\<close>



text \<open>
  A machine with the zone directory and no zone file in it, whose \<open>/etc/timezone\<close>
  holds two lines \<open>../../..\<close>.
\<close>

definition world_bare :: world where
  "world_bare =
     \<lparr> TZ = [],
       timezones = {''UTC''},
       readFile = (\<lambda>p.
         if p = ''/etc/timezone'' then Some (''../../..'' @ [CHR 0x0A] @ ''../../..'')
         else None),
       lstat = (\<lambda>p. None),
       readlink = (\<lambda>p. None),
       stat = (\<lambda>p. Some ErrNotExist),
       realpath = (\<lambda>p.
         if p = ''/'' \<or> p = ''/usr/share/zoneinfo'' then Some p else None) \<rparr>"

text \<open>
  A machine whose \<open>/etc/sysconfig/clock\<close> starts with a comment line of 65536 bytes,
  followed by a \<open>ZONE\<close> line.
\<close>

definition long_clock_file :: string where
  "long_clock_file =
     replicate 65536 (CHR ''#'') @ [CHR 0x0A] @ ''ZONE='' @ [CHR 0x22] @ ''UTC'' @ [CHR 0x22]"

definition world_long_line :: world where
  "world_long_line =
     world_bare \<lparr> readFile := (\<lambda>p.
       if p = ''/etc/sysconfig/clock'' then Some long_clock_file else None) \<rparr>"

text \<open>A Windows machine whose registry names a zone the table does not hold.\<close>

definition win_world_unknown :: win_world where
  "win_world_unknown =
     \<lparr> win_TZ = [],
       win_timezones = {''UTC''},
       win_IsAbs = (\<lambda>p. False),
       win_stat = (\<lambda>p. Some ErrNotExist),
       registry_OpenKey = True,
       registry_GetStringValue = Some ''Nowhere'',
       windowsTimezones = (\<lambda>n. if n = ''UTC'' then Some ''Etc/UTC'' else None) \<rparr>"

section \<open>Properties of the Resolver\<close>

lemma appendIfMissing_found_iff: "appendIfMissing_found slice s \<longleftrightarrow> s \<in> set slice"
  by (induction slice) auto

lemma appendIfMissing_eq: "appendIfMissing slice s = (if s \<in> set slice then slice else slice @ [s])"
  by (simp add: appendIfMissing_def appendIfMissing_found_iff)





lemma resolve_loop_unresolved:
  "\<forall>tz\<in>set tzs. realpath w (filepath_Join [zoneinfo, tz]) = None \<Longrightarrow>
   fst (resolve_loop w zoneinfo depth tzs acc) = Inr acc"
  by (induction tzs arbitrary: acc) (simp_all add: Let_def split_beta del: filepath_Join.simps)



lemma resolve_loop_complete:
  "\<forall>p\<in>set (resolved_paths w zoneinfo tzs). depth \<le> length (strings_Split p ''/'') \<Longrightarrow>
   \<exists>filtered. fst (resolve_loop w zoneinfo depth tzs acc) = Inr filtered"
proof (induction tzs arbitrary: acc)
  case Nil
  then show ?case by simp
next
  case (Cons tz tzs)
  show ?case
  proof (cases "realpath w (filepath_Join [zoneinfo, tz])")
    case None
    with Cons.prems have "\<forall>p\<in>set (resolved_paths w zoneinfo tzs). depth \<le> length (strings_Split p ''/'')"
      by (simp add: resolved_paths_def del: filepath_Join.simps)
    from Cons.IH[OF this, of acc] None show ?thesis
      by (simp add: Let_def split_beta del: filepath_Join.simps)
  next
    case (Some path)
    with Cons.prems have a: "\<forall>p\<in>set (resolved_paths w zoneinfo tzs). depth \<le> length (strings_Split p ''/'')"
      and b: "depth \<le> length (strings_Split path ''/'')"
      by (simp_all add: resolved_paths_def del: filepath_Join.simps)
    from Cons.IH[OF a] Some b show ?thesis
      by (simp add: Let_def split_beta slice_from_def del: filepath_Join.simps)
  qed
qed

lemma resolve_loop_nonempty:
  "fst (resolve_loop w zoneinfo depth tzs acc) = Inr [] \<Longrightarrow>
   acc = [] \<and> (\<forall>tz\<in>set tzs. realpath w (filepath_Join [zoneinfo, tz]) = None)"
proof (induction tzs arbitrary: acc)
  case Nil
  then show ?case by simp
next
  case (Cons tz tzs)
  show ?case
  proof (cases "realpath w (filepath_Join [zoneinfo, tz])")
    case None
    with Cons.prems have "fst (resolve_loop w zoneinfo depth tzs acc) = Inr []"
      by (simp add: Let_def split_beta del: filepath_Join.simps)
    from Cons.IH[OF this] None show ?thesis by (simp del: filepath_Join.simps)
  next
    case (Some path)
    show ?thesis
    proof (cases "slice_from (strings_Split path ''/'') (int depth)")
      case (Inl e)
      with Some Cons.prems show ?thesis by (simp add: Let_def del: filepath_Join.simps)
    next
      case (Inr comps)
      with Some Cons.prems
      have "fst (resolve_loop w zoneinfo depth tzs (appendIfMissing acc (strings_Join comps ''/''))) = Inr []"
        by (simp add: Let_def split_beta del: filepath_Join.simps)
      from Cons.IH[OF this] have False by (simp add: appendIfMissing_eq split: if_splits)
      then show ?thesis ..
    qed
  qed
qed

text \<open>The result of the Resolver on two or more candidates, by the outcome of its loop.\<close>

lemma resolveTimezones_many:
  assumes "2 \<le> length tzs"
  shows "fst (resolveTimezones w tzs zoneinfo) =
     (case fst (resolve_loop w zoneinfo (length (strings_Split zoneinfo ''/'')) tzs []) of
        Inl e \<Rightarrow> Inl e
      | Inr filtered \<Rightarrow>
          if length filtered = 1 then Inr (hd filtered, None)
          else if length filtered > 1 then Inr ([], Some (conflict_message filtered))
          else Inr ([], None))"
proof -
  from assms obtain a b rest where tzs: "tzs = a # b # rest"
    by (cases tzs; cases "tl tzs") auto
  show ?thesis
    unfolding tzs resolveTimezones_def
    by (simp add: Let_def split: prod.splits sum.splits del: resolve_loop.simps)
qed

text \<open>
  C3. A candidate list of exactly one element is returned as it is, with a nil error,
  and the Resolver makes no call to the filesystem, whatever the world holds.
\<close>

theorem resolveTimezones_single:
  "resolveTimezones w [tz] zoneinfo = (Inr (tz, None), [])"
  by (simp add: resolveTimezones_def)



text \<open>
  C1. The loop does not recover an identifier from every real path: a real path with
  fewer pieces than the root makes the slice expression panic. On a machine where
  \<open>/\<close> resolves, the candidates \<open>../../..\<close> (twice) under the root
  \<open>/usr/share/zoneinfo\<close> have one distinct identifier by the described steps, the
  empty one, and the Resolver panics instead of returning it; so does \<open>Name\<close> when
  \<open>/etc/timezone\<close> holds these two lines.
\<close>

theorem resolveTimezones_short_path_panics:
  "fst (resolveTimezones world_bare [''../../..'', ''../../..''] ''/usr/share/zoneinfo'')
     = Inl SliceBoundsOutOfRange
   \<and> spec_identifiers world_bare ''/usr/share/zoneinfo'' [''../../..'', ''../../..''] = [[]]
   \<and> fst (Name world_bare) = Inl SliceBoundsOutOfRange"
  by code_simp

text \<open>
  C4 (amended). The Resolver returns the empty identifier with a nil error exactly when
  the candidate list is empty, or its only candidate is the empty string, or there are
  two or more candidates and either none of them resolves under the root or the loop
  ends with the empty identifier alone.
\<close>

theorem resolveTimezones_empty_result:
  "fst (resolveTimezones w tzs zoneinfo) = Inr ([], None) \<longleftrightarrow>
     tzs = [] \<or> tzs = [[]]
     \<or> (2 \<le> length tzs \<and> (\<forall>tz\<in>set tzs. realpath w (filepath_Join [zoneinfo, tz]) = None))
     \<or> (2 \<le> length tzs
        \<and> fst (resolve_loop w zoneinfo (length (strings_Split zoneinfo ''/'')) tzs []) = Inr [[]])"
proof (cases "2 \<le> length tzs")
  case False
  then consider "tzs = []" | tz where "tzs = [tz]"
    by (cases tzs; cases "tl tzs") auto
  then show ?thesis
    by cases (auto simp: resolveTimezones_def)
next
  case True
  let ?loop = "fst (resolve_loop w zoneinfo (length (strings_Split zoneinfo ''/'')) tzs [])"
  have none: "?loop = Inr [] \<longleftrightarrow> (\<forall>tz\<in>set tzs. realpath w (filepath_Join [zoneinfo, tz]) = None)"
    using resolve_loop_nonempty[of w zoneinfo _ tzs "[]"] resolve_loop_unresolved[of tzs w zoneinfo _ "[]"]
    by blast
  from True have ne: "tzs \<noteq> []" "tzs \<noteq> [[]]" by auto
  have "fst (resolveTimezones w tzs zoneinfo) = Inr ([], None) \<longleftrightarrow> ?loop = Inr [] \<or> ?loop = Inr [[]]"
  proof (cases ?loop)
    case (Inl e)
    then show ?thesis by (simp add: resolveTimezones_many[OF True])
  next
    case (Inr filtered)
    then show ?thesis
      by (cases filtered; cases "tl filtered") (auto simp: resolveTimezones_many[OF True])
  qed
  with none ne True show ?thesis by blast
qed

theorem resolveTimezones_empty_result_witness:
  "fst (resolveTimezones world_bare [''UTC'', ''GMT''] ''/usr/share/zoneinfo'') = Inr ([], None)"
proof -
  have "\<forall>tz\<in>set [''UTC'', ''GMT'']. realpath world_bare (filepath_Join [''/usr/share/zoneinfo'', tz]) = None"
    by code_simp
  then show ?thesis
    using resolveTimezones_empty_result[of world_bare "[''UTC'', ''GMT'']" "''/usr/share/zoneinfo''"]
    by simp
qed

text \<open>
  Two candidates \<open>.\<close> resolve to the root itself, whose identifier is empty: the
  Resolver returns the empty identifier with a nil error, although the list is not empty
  and its candidates resolve.
\<close>

theorem resolveTimezones_empty_result_counterexample:
  "fst (resolveTimezones world_bare [''.'', ''.''] ''/usr/share/zoneinfo'') = Inr ([], None)
   \<and> [''.'', ''.''] \<noteq> ([] :: string list)
   \<and> realpath world_bare (filepath_Join [''/usr/share/zoneinfo'', ''.'']) = Some ''/usr/share/zoneinfo''"
  by code_simp

end
